theory Spec2Isabelle
  imports Main
begin


section \<open>Matchmaking (the chat interface component)\<close>

subsection \<open>Rows of the backing store\<close>

text \<open>
  The component talks to three tables. A row of \<^verbatim>\<open>waiting_queue\<close> is
  \<^verbatim>\<open>{user_id, username}\<close>; the source reads and writes no other column.
  The interface \<^verbatim>\<open>User {id, username}\<close> of the logged-in participant has the same two
  components, and \<^verbatim>\<open>findMatch\<close> upserts exactly
  \<^verbatim>\<open>{user_id: currentUser.id, username: currentUser.username}\<close>, so \<open>currentUser\<close> is
  kept as the row it upserts. Identifiers are strings in the source.
\<close>

record waiting_row =
  user_id :: string
  username :: string

text \<open>
  The interface \<^verbatim>\<open>ChatRoom\<close>. Its \<^verbatim>\<open>id\<close> is generated by the store on insert; the
  model numbers the rows of \<^verbatim>\<open>chat_rooms\<close> in insertion order (rows are never deleted
  by the source, only deactivated).
\<close>

record chat_room =
  id_room :: nat
  user1_id :: string
  user2_id :: string
  user1_username :: string
  user2_username :: string
  is_active :: bool

record database =
  waiting_queue :: "waiting_row list"
  chat_rooms :: "chat_room list"

subsection \<open>The store calls made by the component\<close>

text \<open>
  Modelled from the spec: the declaration of the table \<^verbatim>\<open>waiting_queue\<close> is not among
  the sources; the spec gives the participant id as the unique key of a wait-pool record
  (re-entry overwrites). So
  \<^verbatim>\<open>supabase.from("waiting_queue").upsert({user_id, username})\<close> replaces the row with
  the same \<open>user_id\<close>, or adds the row.
\<close>

definition upsert_waiting :: "waiting_row \<Rightarrow> waiting_row list \<Rightarrow> waiting_row list" where
  "upsert_waiting e q =
     (if list_ex (\<lambda>r. user_id r = user_id e) q
      then map (\<lambda>r. if user_id r = user_id e then e else r) q
      else q @ [e])"

text \<open>
  \<^verbatim>\<open>.select("*").neq("user_id", me).limit(1)\<close>. The query has no ordering, so the store
  may return any one of the rows that pass the filter; the number \<open>n\<close> is the store's
  choice among them.
\<close>

definition select_other :: "nat \<Rightarrow> string \<Rightarrow> waiting_row list \<Rightarrow> waiting_row list" where
  "select_other n me q =
     (let rows = filter (\<lambda>r. user_id r \<noteq> me) q
      in if rows = [] then [] else [rows ! (n mod length rows)])"

text \<open>
  \<^verbatim>\<open>.insert({user1_id, user2_id, user1_username, user2_username, is_active: true})
  .select().single()\<close>: the new row, with the identifier the store gave it.
\<close>

definition new_room :: "waiting_row \<Rightarrow> waiting_row \<Rightarrow> chat_room list \<Rightarrow> chat_room" where
  "new_room me matchedUser rooms =
     \<lparr>id_room = length rooms,
      user1_id = user_id me, user2_id = user_id matchedUser,
      user1_username = username me, user2_username = username matchedUser,
      is_active = True\<rparr>"

text \<open>\<^verbatim>\<open>.delete().in("user_id", ids)\<close> and \<^verbatim>\<open>.delete().eq("user_id", id)\<close>.\<close>

definition delete_waiting :: "string list \<Rightarrow> waiting_row list \<Rightarrow> waiting_row list" where
  "delete_waiting ids q = filter (\<lambda>r. user_id r \<notin> set ids) q"

text \<open>
  \<^verbatim>\<open>.select("*").eq("user2_id", me).eq("is_active", true).single()\<close>. \<^verbatim>\<open>single()\<close>
  yields the row when exactly one row passes the filter; with no row or several rows it
  yields an error and no data, and the source reads only \<^verbatim>\<open>data\<close>.
\<close>

definition single :: "'a list \<Rightarrow> 'a option" where
  "single rows = (case rows of [r] \<Rightarrow> Some r | _ \<Rightarrow> None)"

definition select_existing_room :: "string \<Rightarrow> chat_room list \<Rightarrow> chat_room option" where
  "select_existing_room me rooms =
     single (filter (\<lambda>r. user2_id r = me \<and> is_active r) rooms)"

subsection \<open>Component state and the control points of \<^verbatim>\<open>findMatch\<close>\<close>

text \<open>The \<^verbatim>\<open>useState\<close> cells that \<^verbatim>\<open>findMatch\<close> and \<^verbatim>\<open>stopSearching\<close> write.\<close>

record ui_state =
  chatRoom :: "chat_room option"
  isSearching :: bool
  isInVideoCall :: bool

text \<open>
  Every \<^verbatim>\<open>await supabase...\<close> of \<^verbatim>\<open>findMatch\<close> is a separate request to the
  store: between two of them the calls of other clients may reach the store. A running
  \<^verbatim>\<open>findMatch\<close> is therefore a control point (the call whose reply it awaits, or the
  timer it has set) together with what it has bound so far. Timers carry their delay in
  milliseconds.
\<close>

datatype fm_point =
    FM_upsert
  | FM_search
  | FM_insert waiting_row
  | FM_delete_both waiting_row
  | FM_existing
  | FM_delete_self
  | FM_video_timer nat
  | FM_retry_timer nat
  | FM_done

text \<open>
  What the store answers to one call: it performed the call (\<open>Performed n\<close>, where \<open>n\<close> is
  its choice of row for a \<^verbatim>\<open>limit(1)\<close> query), or it reports an error and leaves the
  tables as they were.
\<close>

datatype reply = Performed nat | Store_error

text \<open>
  \<^verbatim>\<open>findMatch\<close> is a closure created by one rendering of the component. Inside it (and
  inside the timer callback it creates) \<^verbatim>\<open>isSearching\<close> is the constant bound by that
  rendering, not the cell that \<^verbatim>\<open>setIsSearching\<close> writes; the recursive call
  \<^verbatim>\<open>findMatch()\<close> of the callback is the same closure again.
  \<open>closure_isSearching\<close> is that constant.
\<close>

record flow =
  closure_isSearching :: bool
  at :: fm_point

text \<open>The \<^verbatim>\<open>catch\<close> block of \<^verbatim>\<open>findMatch\<close>: log, \<^verbatim>\<open>setIsSearching(false)\<close>, return.\<close>

definition findMatch_catch :: "database \<times> ui_state \<times> flow \<Rightarrow> database \<times> ui_state \<times> flow" where
  "findMatch_catch = (\<lambda>(d, u, f). (d, u\<lparr>isSearching := False\<rparr>, f\<lparr>at := FM_done\<rparr>))"

text \<open>
  \<open>findMatch_reply me r (d, u, f)\<close>: the awaited call of the flow \<open>f\<close> of participant \<open>me\<close>
  reaches the store \<open>d\<close>, the store answers \<open>r\<close>, and \<^verbatim>\<open>findMatch\<close> runs on to its next
  \<^verbatim>\<open>await\<close> or timer. The three calls whose \<^verbatim>\<open>error\<close> the source tests throw into the
  \<^verbatim>\<open>catch\<close> block; the two deletions and the lookup of an existing room ignore the
  error.
\<close>

fun findMatch_reply ::
  "waiting_row \<Rightarrow> reply \<Rightarrow> database \<times> ui_state \<times> flow \<Rightarrow> database \<times> ui_state \<times> flow" where
  "findMatch_reply me r (d, u, f) =
     (case at f of
        FM_upsert \<Rightarrow>
          (case r of
             Store_error \<Rightarrow> findMatch_catch (d, u, f)
           | Performed n \<Rightarrow>
               (d\<lparr>waiting_queue := upsert_waiting me (waiting_queue d)\<rparr>, u, f\<lparr>at := FM_search\<rparr>))
      | FM_search \<Rightarrow>
          (case r of
             Store_error \<Rightarrow> findMatch_catch (d, u, f)
           | Performed n \<Rightarrow>
               (case select_other n (user_id me) (waiting_queue d) of
                  matchedUser # _ \<Rightarrow> (d, u, f\<lparr>at := FM_insert matchedUser\<rparr>)
                | [] \<Rightarrow> (d, u, f\<lparr>at := FM_existing\<rparr>)))
      | FM_insert matchedUser \<Rightarrow>
          (case r of
             Store_error \<Rightarrow> findMatch_catch (d, u, f)
           | Performed n \<Rightarrow>
               (let room = new_room me matchedUser (chat_rooms d)
                in (d\<lparr>chat_rooms := chat_rooms d @ [room]\<rparr>,
                    u\<lparr>chatRoom := Some room, isSearching := False\<rparr>,
                    f\<lparr>at := FM_delete_both matchedUser\<rparr>)))
      | FM_delete_both matchedUser \<Rightarrow>
          (case r of
             Store_error \<Rightarrow> (d, u, f\<lparr>at := FM_video_timer 2000\<rparr>)
           | Performed n \<Rightarrow>
               (d\<lparr>waiting_queue :=
                    delete_waiting [user_id me, user_id matchedUser] (waiting_queue d)\<rparr>,
                u, f\<lparr>at := FM_video_timer 2000\<rparr>))
      | FM_existing \<Rightarrow>
          (case (case r of Store_error \<Rightarrow> None
                 | Performed n \<Rightarrow> select_existing_room (user_id me) (chat_rooms d)) of
             Some existingRoom \<Rightarrow>
               (d, u\<lparr>chatRoom := Some existingRoom, isSearching := False\<rparr>,
                f\<lparr>at := FM_delete_self\<rparr>)
           | None \<Rightarrow> (d, u, f\<lparr>at := FM_retry_timer 2000\<rparr>))
      | FM_delete_self \<Rightarrow>
          (case r of
             Store_error \<Rightarrow> (d, u, f\<lparr>at := FM_video_timer 1000\<rparr>)
           | Performed n \<Rightarrow>
               (d\<lparr>waiting_queue := delete_waiting [user_id me] (waiting_queue d)\<rparr>,
                u, f\<lparr>at := FM_video_timer 1000\<rparr>))
      | _ \<Rightarrow> (d, u, f))"

text \<open>
  A timer of the flow fires. The video timer opens the call view. The retry timer runs
  \<^verbatim>\<open>if (isSearching) { findMatch() }\<close>: with the closure's constant true, the same
  closure starts again (\<^verbatim>\<open>setIsSearching(true)\<close>, then the upsert); otherwise nothing
  happens.
\<close>

fun findMatch_timer :: "ui_state \<times> flow \<Rightarrow> ui_state \<times> flow" where
  "findMatch_timer (u, f) =
     (case at f of
        FM_video_timer ms \<Rightarrow> (u\<lparr>isInVideoCall := True\<rparr>, f\<lparr>at := FM_done\<rparr>)
      | FM_retry_timer ms \<Rightarrow>
          (if closure_isSearching f
           then (u\<lparr>isSearching := True\<rparr>, f\<lparr>at := FM_upsert\<rparr>)
           else (u, f\<lparr>at := FM_done\<rparr>))
      | _ \<Rightarrow> (u, f))"

text \<open>
  \<^verbatim>\<open>stopSearching\<close>: \<^verbatim>\<open>setIsSearching(false)\<close>, then the deletion of the caller's own
  row, whose result the source does not read.
\<close>

fun stopSearching :: "waiting_row \<Rightarrow> reply \<Rightarrow> database \<times> ui_state \<Rightarrow> database \<times> ui_state" where
  "stopSearching me r (d, u) =
     (case r of
        Store_error \<Rightarrow> (d, u\<lparr>isSearching := False\<rparr>)
      | Performed n \<Rightarrow>
          (d\<lparr>waiting_queue := delete_waiting [user_id me] (waiting_queue d)\<rparr>,
           u\<lparr>isSearching := False\<rparr>))"

subsection \<open>Clients sharing one store\<close>

text \<open>
  A client is one mounted component: its \<open>currentUser\<close>, its state cells and the
  \<^verbatim>\<open>findMatch\<close> activations it has started. The "Find Someone to Chat" button, whose
  handler is \<^verbatim>\<open>findMatch\<close>, is rendered only under \<^verbatim>\<open>!chatRoom && !isSearching\<close>, and
  the "Cancel Search" button only under \<^verbatim>\<open>isSearching\<close>. A click on the first runs
  \<^verbatim>\<open>findMatch\<close> up to its first \<^verbatim>\<open>await\<close>; the closure it runs belongs to the
  rendering that showed the button, so its \<^verbatim>\<open>isSearching\<close> is the value of the cell in
  that rendering.
\<close>

record client =
  currentUser :: waiting_row
  ui :: ui_state
  flows :: "flow list"

record system =
  db :: database
  clients :: "client list"

datatype event =
    ClickFind nat
  | ClickCancel nat reply
  | Reply nat nat reply
  | Timer nat nat

definition click_find :: "client \<Rightarrow> client" where
  "click_find c =
     (if chatRoom (ui c) = None \<and> \<not> isSearching (ui c)
      then c\<lparr>ui := (ui c)\<lparr>isSearching := True\<rparr>,
             flows := flows c @ [\<lparr>closure_isSearching = isSearching (ui c), at = FM_upsert\<rparr>]\<rparr>
      else c)"

fun sys_step :: "system \<Rightarrow> event \<Rightarrow> system" where
  "sys_step s (ClickFind i) =
     (if i < length (clients s)
      then s\<lparr>clients := (clients s)[i := click_find (clients s ! i)]\<rparr>
      else s)"
| "sys_step s (ClickCancel i r) =
     (if i < length (clients s) \<and> isSearching (ui (clients s ! i))
      then (let c = clients s ! i;
                (d, u) = stopSearching (currentUser c) r (db s, ui c)
            in s\<lparr>db := d, clients := (clients s)[i := c\<lparr>ui := u\<rparr>]\<rparr>)
      else s)"
| "sys_step s (Reply i k r) =
     (if i < length (clients s) \<and> k < length (flows (clients s ! i))
      then (let c = clients s ! i;
                (d, u, f) = findMatch_reply (currentUser c) r (db s, ui c, flows c ! k)
            in s\<lparr>db := d, clients := (clients s)[i := c\<lparr>ui := u, flows := (flows c)[k := f]\<rparr>]\<rparr>)
      else s)"
| "sys_step s (Timer i k) =
     (if i < length (clients s) \<and> k < length (flows (clients s ! i))
      then (let c = clients s ! i;
                (u, f) = findMatch_timer (ui c, flows c ! k)
            in s\<lparr>clients := (clients s)[i := c\<lparr>ui := u, flows := (flows c)[k := f]\<rparr>]\<rparr>)
      else s)"

definition run :: "system \<Rightarrow> event list \<Rightarrow> system" where
  "run s es = foldl sys_step s es"

text \<open>A freshly mounted component, and a store with empty tables.\<close>

definition mounted :: "waiting_row \<Rightarrow> client" where
  "mounted user =
     \<lparr>currentUser = user,
      ui = \<lparr>chatRoom = None, isSearching = False, isInVideoCall = False\<rparr>,
      flows = []\<rparr>"

definition empty_db :: database where
  "empty_db = \<lparr>waiting_queue = [], chat_rooms = []\<rparr>"

text \<open>The participants named by the active rooms, room by room.\<close>

definition active_participants :: "chat_room list \<Rightarrow> string list" where
  "active_participants rooms =
     concat (map (\<lambda>r. [user1_id r, user2_id r]) (filter is_active rooms))"




subsection \<open>Predicates over runs\<close>





text \<open>Every running \<^verbatim>\<open>findMatch\<close> closure has \<^verbatim>\<open>isSearching\<close> bound to false.\<close>

definition closures_false :: "system \<Rightarrow> bool" where
  "closures_false s = (\<forall>c \<in> set (clients s). \<forall>f \<in> set (flows c). \<not> closure_isSearching f)"

text \<open>
  An event performs a retry attempt when it is the firing of a retry timer whose callback
  calls \<^verbatim>\<open>findMatch()\<close> again, so that the flow stands at its upsert once more.
\<close>

fun is_retry_timer :: "fm_point \<Rightarrow> bool" where
  "is_retry_timer (FM_retry_timer ms) = True"
| "is_retry_timer _ = False"

fun retries :: "system \<Rightarrow> event \<Rightarrow> bool" where
  "retries s (Timer i k) =
     (i < length (clients s) \<and> k < length (flows (clients s ! i)) \<and>
      is_retry_timer (at (flows (clients s ! i) ! k)) \<and>
      at (flows (clients (sys_step s (Timer i k)) ! i) ! k) = FM_upsert)"
| "retries s _ = False"

subsection \<open>Example participants and schedules\<close>

definition alice :: waiting_row where
  "alice = \<lparr>user_id = ''a'', username = ''Alice''\<rparr>"

definition bob :: waiting_row where
  "bob = \<lparr>user_id = ''b'', username = ''Bob''\<rparr>"

definition carol :: waiting_row where
  "carol = \<lparr>user_id = ''c'', username = ''Carol''\<rparr>"

definition idle :: ui_state where
  "idle = \<lparr>chatRoom = None, isSearching = False, isInVideoCall = False\<rparr>"

definition one_client :: system where
  "one_client = \<lparr>db = empty_db, clients = [mounted alice]\<rparr>"

definition two_clients :: system where
  "two_clients = \<lparr>db = empty_db, clients = [mounted alice, mounted bob]\<rparr>"

definition three_clients :: system where
  "three_clients = \<lparr>db = empty_db, clients = [mounted alice, mounted bob, mounted carol]\<rparr>"

text \<open>
  Alice and Bob search at the same time: each call of one is followed by the same call of
  the other.
\<close>

definition race :: "event list" where
  "race = [ClickFind 0, ClickFind 1,
           Reply 0 0 (Performed 0), Reply 1 0 (Performed 0),
           Reply 0 0 (Performed 0), Reply 1 0 (Performed 0),
           Reply 0 0 (Performed 0), Reply 1 0 (Performed 0),
           Reply 0 0 (Performed 0), Reply 1 0 (Performed 0)]"

text \<open>
  Alice and Carol have entered the queue and await the answer to their search; meanwhile
  Bob enters, is given Alice's row, inserts the room and deletes both rows.
\<close>

definition overtaken :: "event list" where
  "overtaken = [ClickFind 0, Reply 0 0 (Performed 0),
                ClickFind 2, Reply 2 0 (Performed 0),
                ClickFind 1, Reply 1 0 (Performed 0), Reply 1 0 (Performed 0),
                Reply 1 0 (Performed 0), Reply 1 0 (Performed 0)]"

text \<open>
  Alice alone: she searches, finds nobody and no room, and her flow waits on its retry
  timer; then she cancels.
\<close>

definition lonely_search :: "event list" where
  "lonely_search = [ClickFind 0, Reply 0 0 (Performed 0), Reply 0 0 (Performed 0),
                    Reply 0 0 (Performed 0)]"

text \<open>
  Bob waits; Alice is given his row and inserts the room, but the store fails the deletion
  of the two rows.
\<close>

definition failed_deletion :: "event list" where
  "failed_deletion = [ClickFind 1, Reply 1 0 (Performed 0),
                      ClickFind 0, Reply 0 0 (Performed 0), Reply 0 0 (Performed 0),
                      Reply 0 0 (Performed 0), Reply 0 0 Store_error]"

text \<open>
  Every attempt runs without another client's call in between. Alice searches first and
  waits; Bob searches, is given Alice's row and pairs with her; Carol searches and waits.
  Alice cancels and searches again.
\<close>

definition one_after_another :: "event list" where
  "one_after_another =
     [ClickFind 0, Reply 0 0 (Performed 0), Reply 0 0 (Performed 0), Reply 0 0 (Performed 0),
      ClickFind 1, Reply 1 0 (Performed 0), Reply 1 0 (Performed 0), Reply 1 0 (Performed 0),
      Reply 1 0 (Performed 0),
      ClickFind 2, Reply 2 0 (Performed 0), Reply 2 0 (Performed 0), Reply 2 0 (Performed 0),
      ClickCancel 0 (Performed 0),
      ClickFind 0, Reply 0 1 (Performed 0), Reply 0 1 (Performed 0), Reply 0 1 (Performed 0),
      Reply 0 1 (Performed 0)]"

text \<open>Bob and Carol wait while Alice searches alone in her own rendering.\<close>

definition three_waiting :: database where
  "three_waiting = \<lparr>waiting_queue = [bob, alice, carol], chat_rooms = []\<rparr>"

section \<open>Negotiation (the video call component)\<close>

subsection \<open>The browser objects the component holds\<close>

text \<open>
  Session descriptions and ICE candidates are opaque values that the component passes on.
  A peer connection is seen through the two attributes the source reads or the browser
  sets (\<^verbatim>\<open>remoteDescription\<close>, \<^verbatim>\<open>localDescription\<close>) and through the sequence of
  method calls the component has made on it, in call order.
\<close>

type_synonym sdp = string
type_synonym candidate = string

datatype pc_call =
    PC_addTrack string
  | PC_createOffer
  | PC_createAnswer
  | PC_setLocalDescription sdp
  | PC_setRemoteDescription sdp
  | PC_addIceCandidate candidate
  | PC_close

record peer_connection =
  remoteDescription :: "sdp option"
  localDescription :: "sdp option"
  calls :: "pc_call list"

text \<open>A track of the captured stream, with the number of \<^verbatim>\<open>stop()\<close> calls it has received.\<close>

record media_track =
  kind :: string
  stop_calls :: nat

text \<open>
  The payload of a broadcast, as \<^verbatim>\<open>sendSignalingMessage\<close> builds it: the data of the
  event together with \<^verbatim>\<open>senderId\<close> and \<^verbatim>\<open>roomId\<close>. The event name
  (\<^verbatim>\<open>offer\<close>, \<^verbatim>\<open>answer\<close>, \<^verbatim>\<open>ice-candidate\<close>) is the constructor.
\<close>

datatype signal = Offer sdp | Answer sdp | IceCandidate candidate

record payload =
  senderId :: string
  payload_roomId :: string
  signal :: signal

text \<open>
  A realtime channel: its topic, the payloads the component has sent on it, and the number
  of \<^verbatim>\<open>supabase.removeChannel\<close> calls it has received.
\<close>

record channel =
  topic :: string
  sent :: "payload list"
  remove_calls :: nat

text \<open>
  What the browser does is not decided by the component: whether capture is granted, and
  whether each call on the peer connection succeeds or throws. A \<open>browser\<close> fixes these
  answers; theorems quantify over it.
\<close>

record browser =
  getUserMedia :: "media_track list option"
  createOffer_result :: "peer_connection \<Rightarrow> sdp option"
  createAnswer_result :: "peer_connection \<Rightarrow> sdp option"
  setLocalDescription_ok :: "peer_connection \<Rightarrow> sdp \<Rightarrow> bool"
  setRemoteDescription_ok :: "peer_connection \<Rightarrow> sdp \<Rightarrow> bool"
  addIceCandidate_ok :: "peer_connection \<Rightarrow> candidate \<Rightarrow> bool"

datatype connection_status = Connecting | Connected | Disconnected

text \<open>
  The component: its props, its refs, the \<^verbatim>\<open>connectionStatus\<close> and
  \<^verbatim>\<open>remoteStreamReceived\<close> cells, and whether the initiator's two-second timer for
  \<^verbatim>\<open>createOffer\<close> is pending.
\<close>

record video_call =
  roomId :: string
  userId :: string
  isInitiator :: bool
  peerConnectionRef :: "peer_connection option"
  localStreamRef :: "media_track list option"
  signalingChannelRef :: "channel option"
  iceCandidatesQueue :: "candidate list"
  connectionStatus :: connection_status
  remoteStreamReceived :: bool
  offer_timer :: bool

definition mount :: "string \<Rightarrow> string \<Rightarrow> bool \<Rightarrow> video_call" where
  "mount room user initiator =
     \<lparr>roomId = room, userId = user, isInitiator = initiator,
      peerConnectionRef = None, localStreamRef = None, signalingChannelRef = None,
      iceCandidatesQueue = [], connectionStatus = Connecting,
      remoteStreamReceived = False, offer_timer = False\<rparr>"

subsection \<open>Signaling\<close>

definition called :: "pc_call \<Rightarrow> peer_connection \<Rightarrow> peer_connection" where
  "called c pc = pc\<lparr>calls := calls pc @ [c]\<rparr>"

text \<open>\<^verbatim>\<open>sendSignalingMessage\<close>: nothing is sent while the channel ref is empty.\<close>

definition sendSignalingMessage :: "signal \<Rightarrow> video_call \<Rightarrow> video_call" where
  "sendSignalingMessage data vc =
     (case signalingChannelRef vc of
        None \<Rightarrow> vc
      | Some ch \<Rightarrow>
          vc\<lparr>signalingChannelRef :=
               Some (ch\<lparr>sent := sent ch @
                 [\<lparr>senderId = userId vc, payload_roomId = roomId vc, signal = data\<rparr>]\<rparr>)\<rparr>)"

text \<open>What the component has published so far.\<close>

definition published :: "video_call \<Rightarrow> payload list" where
  "published vc = (case signalingChannelRef vc of None \<Rightarrow> [] | Some ch \<Rightarrow> sent ch)"

text \<open>
  \<^verbatim>\<open>setupSignalingChannel\<close>: the channel \<^verbatim>\<open>webrtc-${roomId}\<close> is created, the three
  handlers are registered, the channel is subscribed and stored in the ref.
\<close>

definition setupSignalingChannel :: "video_call \<Rightarrow> video_call" where
  "setupSignalingChannel vc =
     vc\<lparr>signalingChannelRef :=
          Some \<lparr>topic = ''webrtc-'' @ roomId vc, sent = [], remove_calls = 0\<rparr>\<rparr>"

text \<open>
  \<^verbatim>\<open>createOffer\<close>, \<^verbatim>\<open>handleOffer\<close>, \<^verbatim>\<open>handleAnswer\<close> and \<^verbatim>\<open>handleIceCandidate\<close>
  are \<^verbatim>\<open>async\<close> functions. The definitions of this subsection give each of them as it
  runs when nothing else is handled before it has ended: from its first statement through
  its \<^verbatim>\<open>await\<close>s to its last. The subsection "The handlers between their awaits" takes
  them one \<^verbatim>\<open>await\<close> at a time, with other events in between. In both, the browser's
  answer to each awaited call is read off the \<open>browser\<close>, which is given the peer
  connection as it is when the call is made.

  \<^verbatim>\<open>createOffer\<close>: \<^verbatim>\<open>createOffer\<close>, \<^verbatim>\<open>setLocalDescription\<close>, then the offer is
  sent; a call that throws ends the function in its \<^verbatim>\<open>catch\<close> (a log line).
\<close>

definition createOffer :: "browser \<Rightarrow> video_call \<Rightarrow> video_call" where
  "createOffer w vc =
     (case peerConnectionRef vc of
        None \<Rightarrow> vc
      | Some pc \<Rightarrow>
          (case createOffer_result w pc of
             None \<Rightarrow> vc\<lparr>peerConnectionRef := Some (called PC_createOffer pc)\<rparr>
           | Some offer \<Rightarrow>
               (let pc1 = called PC_createOffer pc;
                    pc2 = called (PC_setLocalDescription offer) pc1
                in if setLocalDescription_ok w pc1 offer
                   then sendSignalingMessage (Offer offer)
                          (vc\<lparr>peerConnectionRef := Some (pc2\<lparr>localDescription := Some offer\<rparr>)\<rparr>)
                   else vc\<lparr>peerConnectionRef := Some pc2\<rparr>)))"

text \<open>
  The loop shared by \<^verbatim>\<open>handleOffer\<close> and \<^verbatim>\<open>handleAnswer\<close>:
  \<^verbatim>\<open>while (queue.length > 0) { c = queue.shift(); if (c) await pc.addIceCandidate(c) }\<close>.
  The queue holds \<^verbatim>\<open>RTCIceCandidateInit\<close> objects, so the test \<^verbatim>\<open>if (c)\<close> always
  passes. The result says whether the loop ran to the end (\<open>True\<close>) or a call threw; in the
  second case the candidate that threw has left the queue and the later ones stay in it.
\<close>

fun drain ::
  "browser \<Rightarrow> peer_connection \<Rightarrow> candidate list \<Rightarrow> bool \<times> peer_connection \<times> candidate list" where
  "drain w pc [] = (True, pc, [])"
| "drain w pc (c # cs) =
     (if addIceCandidate_ok w pc c
      then drain w (called (PC_addIceCandidate c) pc) cs
      else (False, called (PC_addIceCandidate c) pc, cs))"

text \<open>
  \<^verbatim>\<open>handleOffer\<close>. The handlers are closures over the peer connection that
  \<^verbatim>\<open>initializeCall\<close> created and stored in \<^verbatim>\<open>peerConnectionRef\<close>; they exist only
  once it exists.
\<close>

definition handleOffer :: "browser \<Rightarrow> sdp \<Rightarrow> video_call \<Rightarrow> video_call" where
  "handleOffer w offer vc =
     (case peerConnectionRef vc of
        None \<Rightarrow> vc
      | Some pc \<Rightarrow>
          (if \<not> setRemoteDescription_ok w pc offer
           then vc\<lparr>peerConnectionRef := Some (called (PC_setRemoteDescription offer) pc)\<rparr>
           else
             (case drain w ((called (PC_setRemoteDescription offer) pc)
                              \<lparr>remoteDescription := Some offer\<rparr>) (iceCandidatesQueue vc) of
                (False, pc1, q) \<Rightarrow> vc\<lparr>peerConnectionRef := Some pc1, iceCandidatesQueue := q\<rparr>
              | (True, pc1, q) \<Rightarrow>
                  (case createAnswer_result w pc1 of
                     None \<Rightarrow>
                       vc\<lparr>peerConnectionRef := Some (called PC_createAnswer pc1),
                          iceCandidatesQueue := q\<rparr>
                   | Some answer \<Rightarrow>
                       (let pc2 = called PC_createAnswer pc1;
                            pc3 = called (PC_setLocalDescription answer) pc2
                        in if setLocalDescription_ok w pc2 answer
                           then sendSignalingMessage (Answer answer)
                                  (vc\<lparr>peerConnectionRef :=
                                        Some (pc3\<lparr>localDescription := Some answer\<rparr>),
                                      iceCandidatesQueue := q\<rparr>)
                           else vc\<lparr>peerConnectionRef := Some pc3,
                                   iceCandidatesQueue := q\<rparr>)))))"

definition handleAnswer :: "browser \<Rightarrow> sdp \<Rightarrow> video_call \<Rightarrow> video_call" where
  "handleAnswer w answer vc =
     (case peerConnectionRef vc of
        None \<Rightarrow> vc
      | Some pc \<Rightarrow>
          (if \<not> setRemoteDescription_ok w pc answer
           then vc\<lparr>peerConnectionRef := Some (called (PC_setRemoteDescription answer) pc)\<rparr>
           else
             (case drain w ((called (PC_setRemoteDescription answer) pc)
                              \<lparr>remoteDescription := Some answer\<rparr>) (iceCandidatesQueue vc) of
                (ok, pc1, q) \<Rightarrow> vc\<lparr>peerConnectionRef := Some pc1, iceCandidatesQueue := q\<rparr>)))"

definition handleIceCandidate :: "browser \<Rightarrow> candidate \<Rightarrow> video_call \<Rightarrow> video_call" where
  "handleIceCandidate w c vc =
     (case peerConnectionRef vc of
        None \<Rightarrow> vc
      | Some pc \<Rightarrow>
          (if remoteDescription pc \<noteq> None
           then vc\<lparr>peerConnectionRef := Some (called (PC_addIceCandidate c) pc)\<rparr>
           else vc\<lparr>iceCandidatesQueue := iceCandidatesQueue vc @ [c]\<rparr>))"

text \<open>
  The three handlers registered by \<^verbatim>\<open>setupSignalingChannel\<close>: each tests
  \<^verbatim>\<open>payload.senderId !== userId\<close> and nothing else.
\<close>

definition on_broadcast :: "browser \<Rightarrow> video_call \<Rightarrow> payload \<Rightarrow> video_call" where
  "on_broadcast w vc p =
     (if senderId p \<noteq> userId vc
      then (case signal p of
              Offer offer \<Rightarrow> handleOffer w offer vc
            | Answer answer \<Rightarrow> handleAnswer w answer vc
            | IceCandidate c \<Rightarrow> handleIceCandidate w c vc)
      else vc)"

subsection \<open>Life cycle\<close>

text \<open>
  \<^verbatim>\<open>initializeCall\<close>. When \<^verbatim>\<open>getUserMedia\<close> rejects, control passes to the
  \<^verbatim>\<open>catch\<close> block, which logs and sets the status; nothing after the capture has run.
\<close>

definition initializeCall :: "browser \<Rightarrow> video_call \<Rightarrow> video_call" where
  "initializeCall w vc =
     (case getUserMedia w of
        None \<Rightarrow> vc\<lparr>connectionStatus := Disconnected\<rparr>
      | Some stream \<Rightarrow>
          (let pc = \<lparr>remoteDescription = None, localDescription = None,
                     calls = map (\<lambda>t. PC_addTrack (kind t)) stream\<rparr>;
               vc1 = setupSignalingChannel
                       (vc\<lparr>localStreamRef := Some stream, peerConnectionRef := Some pc\<rparr>)
           in if isInitiator vc then vc1\<lparr>offer_timer := True\<rparr> else vc1))"

text \<open>
  \<^verbatim>\<open>cleanup\<close>: every track of the stored stream is stopped, the stored peer connection
  is closed, the stored channel is removed. The refs keep their objects.
\<close>

definition cleanup :: "video_call \<Rightarrow> video_call" where
  "cleanup vc =
     vc\<lparr>localStreamRef :=
          map_option (map (\<lambda>t. t\<lparr>stop_calls := Suc (stop_calls t)\<rparr>)) (localStreamRef vc),
        peerConnectionRef := map_option (called PC_close) (peerConnectionRef vc),
        signalingChannelRef :=
          map_option (\<lambda>ch. ch\<lparr>remove_calls := Suc (remove_calls ch)\<rparr>) (signalingChannelRef vc)\<rparr>"

text \<open>
  The component leaves the tree: React runs the function returned by the effect, which
  calls \<^verbatim>\<open>cleanup\<close>.
\<close>

definition unmount :: "video_call \<Rightarrow> video_call" where
  "unmount vc = cleanup vc"

text \<open>
  \<^verbatim>\<open>endCall\<close>: \<^verbatim>\<open>cleanup()\<close>, then \<^verbatim>\<open>onEndCall()\<close>. The parent passes
  \<^verbatim>\<open>endVideoCall\<close>, which sets \<^verbatim>\<open>isInVideoCall\<close> to false; the parent then no longer
  renders the component, so it is unmounted.
\<close>

definition endCall :: "video_call \<Rightarrow> video_call" where
  "endCall vc = unmount (cleanup vc)"

text \<open>
  \<^verbatim>\<open>onconnectionstatechange\<close>: the browser reports the connection state by name.
\<close>

definition onconnectionstatechange :: "string \<Rightarrow> video_call \<Rightarrow> video_call" where
  "onconnectionstatechange connectionState vc =
     (if connectionState = ''connected'' then vc\<lparr>connectionStatus := Connected\<rparr>
      else if connectionState = ''disconnected'' \<or> connectionState = ''failed''
      then vc\<lparr>connectionStatus := Disconnected\<rparr>
      else vc)"

text \<open>
  What can happen to a mounted component. A broadcast is handed to the handlers when it is
  published on the topic of the component's channel and the channel has not been removed.
  The peer connection's callbacks exist once the peer connection does. A remote track
  comes with the value of the test \<^verbatim>\<open>remoteVideoRef.current && event.streams[0]\<close> of
  \<^verbatim>\<open>ontrack\<close>, which the browser decides. In \<open>vc_step\<close> the function that an event
  starts has ended before the next event; \<open>session_step\<close> below lifts this.
\<close>

datatype vc_event =
    Broadcast string payload
  | Offer_timer
  | Connection_state string
  | Remote_track bool
  | Local_candidate candidate
  | Click_end_call
  | Unmounted

fun vc_step :: "browser \<Rightarrow> video_call \<Rightarrow> vc_event \<Rightarrow> video_call" where
  "vc_step w vc (Broadcast t p) =
     (case signalingChannelRef vc of
        None \<Rightarrow> vc
      | Some ch \<Rightarrow> if topic ch = t \<and> remove_calls ch = 0 then on_broadcast w vc p else vc)"
| "vc_step w vc Offer_timer =
     (if offer_timer vc then createOffer w (vc\<lparr>offer_timer := False\<rparr>) else vc)"
| "vc_step w vc (Connection_state st) =
     (if peerConnectionRef vc = None then vc else onconnectionstatechange st vc)"
| "vc_step w vc (Remote_track shown) =
     (if peerConnectionRef vc = None \<or> \<not> shown then vc
      else vc\<lparr>remoteStreamReceived := True, connectionStatus := Connected\<rparr>)"
| "vc_step w vc (Local_candidate c) =
     (if peerConnectionRef vc = None then vc else sendSignalingMessage (IceCandidate c) vc)"
| "vc_step w vc Click_end_call = endCall vc"
| "vc_step w vc Unmounted = unmount vc"



text \<open>How often a call occurs in a call sequence.\<close>

definition times_called :: "pc_call \<Rightarrow> peer_connection \<Rightarrow> nat" where
  "times_called c pc = count_list (calls pc) c"

subsection \<open>The handlers between their awaits\<close>

text \<open>
  An \<^verbatim>\<open>async\<close> function runs to its next \<^verbatim>\<open>await\<close> and goes on when the browser
  has settled the awaited call; whatever is delivered in between is handled first (the
  realtime client does not wait for a callback it has started). A function that has
  started and not ended is recorded by the call it waits for, together with the
  browser's answer to that call, which is read off the \<open>browser\<close> when the call is made.
\<close>

datatype handler =
    Offer_setRemoteDescription sdp bool
  | Offer_addIceCandidate bool
  | Offer_createAnswer "sdp option"
  | Offer_setLocalDescription sdp bool
  | Answer_setRemoteDescription sdp bool
  | Answer_addIceCandidate bool
  | Candidate_addIceCandidate
  | Create_createOffer "sdp option"
  | Create_setLocalDescription sdp bool
  | Ended

text \<open>
  The head of the loop \<^verbatim>\<open>while (iceCandidatesQueue.current.length > 0)\<close> in
  \<^verbatim>\<open>handleOffer\<close>: the first candidate of the queue is shifted out and
  \<^verbatim>\<open>addIceCandidate\<close> is called with it; on an empty queue \<^verbatim>\<open>createAnswer\<close> is
  called. The queue is read when the loop head is reached, not when the handler started.
\<close>

definition offer_loop :: "browser \<Rightarrow> video_call \<Rightarrow> video_call \<times> handler" where
  "offer_loop w vc =
     (case peerConnectionRef vc of
        None \<Rightarrow> (vc, Ended)
      | Some pc \<Rightarrow>
          (case iceCandidatesQueue vc of
             [] \<Rightarrow>
               (vc\<lparr>peerConnectionRef := Some (called PC_createAnswer pc)\<rparr>,
                Offer_createAnswer (createAnswer_result w pc))
           | c # cs \<Rightarrow>
               (vc\<lparr>peerConnectionRef := Some (called (PC_addIceCandidate c) pc),
                   iceCandidatesQueue := cs\<rparr>,
                Offer_addIceCandidate (addIceCandidate_ok w pc c))))"

text \<open>The head of the same loop in \<^verbatim>\<open>handleAnswer\<close>, which ends on an empty queue.\<close>

definition answer_loop :: "browser \<Rightarrow> video_call \<Rightarrow> video_call \<times> handler" where
  "answer_loop w vc =
     (case peerConnectionRef vc of
        None \<Rightarrow> (vc, Ended)
      | Some pc \<Rightarrow>
          (case iceCandidatesQueue vc of
             [] \<Rightarrow> (vc, Ended)
           | c # cs \<Rightarrow>
               (vc\<lparr>peerConnectionRef := Some (called (PC_addIceCandidate c) pc),
                   iceCandidatesQueue := cs\<rparr>,
                Answer_addIceCandidate (addIceCandidate_ok w pc c))))"


text \<open>\<^verbatim>\<open>createOffer\<close> from its first statement to its first \<^verbatim>\<open>await\<close>.\<close>

definition createOffer_start :: "browser \<Rightarrow> video_call \<Rightarrow> video_call \<times> handler" where
  "createOffer_start w vc =
     (case peerConnectionRef vc of
        None \<Rightarrow> (vc, Ended)
      | Some pc \<Rightarrow>
          (vc\<lparr>peerConnectionRef := Some (called PC_createOffer pc)\<rparr>,
           Create_createOffer (createOffer_result w pc)))"

text \<open>
  The browser settles the awaited call and the function goes on to its next \<^verbatim>\<open>await\<close>
  or to its end. A call that was rejected throws at the \<^verbatim>\<open>await\<close>: the \<^verbatim>\<open>catch\<close>
  block logs and the function ends. A fulfilled \<^verbatim>\<open>setRemoteDescription\<close> or
  \<^verbatim>\<open>setLocalDescription\<close> has set the attribute of the peer connection.
\<close>

fun handler_resume :: "browser \<Rightarrow> video_call \<times> handler \<Rightarrow> video_call \<times> handler" where
  "handler_resume w (vc, Offer_setRemoteDescription offer ok) =
     (if ok
      then offer_loop w
             (vc\<lparr>peerConnectionRef :=
                   map_option (\<lambda>pc. pc\<lparr>remoteDescription := Some offer\<rparr>) (peerConnectionRef vc)\<rparr>)
      else (vc, Ended))"
| "handler_resume w (vc, Offer_addIceCandidate ok) =
     (if ok then offer_loop w vc else (vc, Ended))"
| "handler_resume w (vc, Offer_createAnswer None) = (vc, Ended)"
| "handler_resume w (vc, Offer_createAnswer (Some answer)) =
     (case peerConnectionRef vc of
        None \<Rightarrow> (vc, Ended)
      | Some pc \<Rightarrow>
          (vc\<lparr>peerConnectionRef := Some (called (PC_setLocalDescription answer) pc)\<rparr>,
           Offer_setLocalDescription answer (setLocalDescription_ok w pc answer)))"
| "handler_resume w (vc, Offer_setLocalDescription answer ok) =
     (if ok
      then (sendSignalingMessage (Answer answer)
              (vc\<lparr>peerConnectionRef :=
                    map_option (\<lambda>pc. pc\<lparr>localDescription := Some answer\<rparr>) (peerConnectionRef vc)\<rparr>),
            Ended)
      else (vc, Ended))"
| "handler_resume w (vc, Answer_setRemoteDescription answer ok) =
     (if ok
      then answer_loop w
             (vc\<lparr>peerConnectionRef :=
                   map_option (\<lambda>pc. pc\<lparr>remoteDescription := Some answer\<rparr>) (peerConnectionRef vc)\<rparr>)
      else (vc, Ended))"
| "handler_resume w (vc, Answer_addIceCandidate ok) =
     (if ok then answer_loop w vc else (vc, Ended))"
| "handler_resume w (vc, Candidate_addIceCandidate) = (vc, Ended)"
| "handler_resume w (vc, Create_createOffer None) = (vc, Ended)"
| "handler_resume w (vc, Create_createOffer (Some offer)) =
     (case peerConnectionRef vc of
        None \<Rightarrow> (vc, Ended)
      | Some pc \<Rightarrow>
          (vc\<lparr>peerConnectionRef := Some (called (PC_setLocalDescription offer) pc)\<rparr>,
           Create_setLocalDescription offer (setLocalDescription_ok w pc offer)))"
| "handler_resume w (vc, Create_setLocalDescription offer ok) =
     (if ok
      then (sendSignalingMessage (Offer offer)
              (vc\<lparr>peerConnectionRef :=
                    map_option (\<lambda>pc. pc\<lparr>localDescription := Some offer\<rparr>) (peerConnectionRef vc)\<rparr>),
            Ended)
      else (vc, Ended))"
| "handler_resume w (vc, Ended) = (vc, Ended)"

text \<open>
  A component together with the functions that have started, in the order they started.
  An event either happens to the component, where a broadcast or the offer timer only
  starts its function, or is the browser settling the call that the \<open>k\<close>-th started
  function waits for. Any order of these events is a run.
\<close>

record session =
  component :: video_call
  running :: "handler list"

datatype session_event = Happens vc_event | Resumes nat


text \<open>The session of a component that has just run \<^verbatim>\<open>initializeCall\<close>.\<close>

definition call_session :: "browser \<Rightarrow> string \<Rightarrow> string \<Rightarrow> bool \<Rightarrow> session" where
  "call_session w room user role =
     \<lparr>component = initializeCall w (mount room user role), running = []\<rparr>"


subsection \<open>Predicates over the component's history\<close>







text \<open>A component whose capture failed: it holds nothing and has scheduled nothing.\<close>

definition holds_nothing :: "video_call \<Rightarrow> bool" where
  "holds_nothing vc =
     (peerConnectionRef vc = None \<and> localStreamRef vc = None \<and>
      signalingChannelRef vc = None \<and> \<not> offer_timer vc \<and>
      connectionStatus vc = Disconnected)"

text \<open>A browser whose calls all succeed.\<close>

definition never_throws :: "browser \<Rightarrow> sdp \<Rightarrow> bool" where
  "never_throws w answer =
     ((\<forall>pc d. setRemoteDescription_ok w pc d) \<and> (\<forall>pc c. addIceCandidate_ok w pc c) \<and>
      (\<forall>pc. createAnswer_result w pc = Some answer) \<and> (\<forall>pc d. setLocalDescription_ok w pc d))"

subsection \<open>Example browsers and components\<close>

text \<open>
  A browser that grants an audio and a video track and accepts every call, and one that
  denies capture.
\<close>

definition granting :: browser where
  "granting =
     \<lparr>getUserMedia = Some [\<lparr>kind = ''audio'', stop_calls = 0\<rparr>, \<lparr>kind = ''video'', stop_calls = 0\<rparr>],
      createOffer_result = (\<lambda>pc. Some ''offer''),
      createAnswer_result = (\<lambda>pc. Some ''answer''),
      setLocalDescription_ok = (\<lambda>pc d. True),
      setRemoteDescription_ok = (\<lambda>pc d. True),
      addIceCandidate_ok = (\<lambda>pc c. True)\<rparr>"

definition denying :: browser where
  "denying = granting\<lparr>getUserMedia := None\<rparr>"

text \<open>
  In room \<open>r1\<close>, participant \<open>a\<close> is the initiator and \<open>b\<close> the responder; both have
  initialized their call.
\<close>

definition initiator :: video_call where
  "initiator = initializeCall granting (mount ''r1'' ''a'' True)"

definition responder :: video_call where
  "responder = initializeCall granting (mount ''r1'' ''b'' False)"

definition from_a :: "string \<Rightarrow> signal \<Rightarrow> payload" where
  "from_a room data = \<lparr>senderId = ''a'', payload_roomId = room, signal = data\<rparr>"

definition from_b :: "string \<Rightarrow> signal \<Rightarrow> payload" where
  "from_b room data = \<lparr>senderId = ''b'', payload_roomId = room, signal = data\<rparr>"

text \<open>A browser that rejects the candidate \<open>c1\<close> and accepts every other call.\<close>

definition rejecting_c1 :: browser where
  "rejecting_c1 = granting\<lparr>addIceCandidate_ok := (\<lambda>pc c. c \<noteq> ''c1'')\<rparr>"

text \<open>
  Bob's two candidates reach the initiator before his answer; the browser settles
  \<^verbatim>\<open>setRemoteDescription\<close>; a third candidate is delivered while the first is being
  added.
\<close>

definition early_candidates :: "session_event list" where
  "early_candidates =
     [Happens (Broadcast ''webrtc-r1'' (from_b ''r1'' (IceCandidate ''c1''))),
      Happens (Broadcast ''webrtc-r1'' (from_b ''r1'' (IceCandidate ''c2''))),
      Happens (Broadcast ''webrtc-r1'' (from_b ''r1'' (Answer ''answer''))),
      Resumes 2]"

definition late_candidate :: "session_event list" where
  "late_candidate =
     early_candidates @
     [Happens (Broadcast ''webrtc-r1'' (from_b ''r1'' (IceCandidate ''c3''))),
      Resumes 2, Resumes 2, Resumes 3]"


section \<open>Login (the home page)\<close>

text \<open>
  A row of the \<^verbatim>\<open>users\<close> table, as far as the source reads it, and an error of the
  store with its \<^verbatim>\<open>code\<close> and \<^verbatim>\<open>message\<close>.
\<close>

record users_row =
  id_user :: nat
  username_user :: string
  is_online :: bool

record pg_error =
  code :: string
  message :: string

text \<open>The state cells of the page.\<close>

record home_page =
  currentUser_page :: "users_row option"
  loading :: bool
  error :: "string option"

text \<open>
  Beyond what the tables hold, each of the three calls of \<^verbatim>\<open>handleLogin\<close> may be
  answered by an error of the store (a constraint, the network); \<open>None\<close> means the call is
  performed.
\<close>

record store_errors =
  find_error :: "pg_error option"
  update_error :: "pg_error option"
  insert_error :: "pg_error option"

text \<open>
  \<^verbatim>\<open>.from("users").select("*").eq("username", username).single()\<close>: the row when
  exactly one row has the name, otherwise no data and the error \<^verbatim>\<open>PGRST116\<close>.
\<close>

definition find_user :: "pg_error option \<Rightarrow> string \<Rightarrow> users_row list \<Rightarrow> users_row option \<times> pg_error option" where
  "find_user err name users =
     (case err of
        Some e \<Rightarrow> (None, Some e)
      | None \<Rightarrow>
          (case single (filter (\<lambda>r. username_user r = name) users) of
             Some r \<Rightarrow> (Some r, None)
           | None \<Rightarrow> (None, Some \<lparr>code = ''PGRST116'', message = ''no single row''\<rparr>)))"

text \<open>
  The \<^verbatim>\<open>catch\<close> and \<^verbatim>\<open>finally\<close> blocks of \<^verbatim>\<open>handleLogin\<close>. An empty message is
  falsy, so \<^verbatim>\<open>error.message || "Unknown error"\<close> replaces it.
\<close>

definition login_failed :: "pg_error \<Rightarrow> home_page \<Rightarrow> home_page" where
  "login_failed e page =
     page\<lparr>loading := False,
          error := Some (if code e = ''23505''
                         then ''This username is already taken. Please choose another one.''
                         else ''Login failed: '' @
                              (if message e = [] then ''Unknown error'' else message e))\<rparr>"

text \<open>
  The rest of the \<^verbatim>\<open>try\<close> block of \<^verbatim>\<open>handleLogin\<close>, after the test of
  \<^verbatim>\<open>findError\<close>. An existing row with the name is set online and becomes the current
  user; only without one is a new row inserted. \<^verbatim>\<open>.update(...).eq("id", id).select()
  .single()\<close> yields the updated row when exactly one row has the id. The store numbers a
  new row.
\<close>

definition handleLogin_write ::
  "store_errors \<Rightarrow> string \<Rightarrow> users_row option \<Rightarrow> users_row list \<times> home_page
     \<Rightarrow> users_row list \<times> home_page" where
  "handleLogin_write errs name existingUser = (\<lambda>(users, page).
     (case existingUser of
        Some existing \<Rightarrow>
          (case update_error errs of
             Some e \<Rightarrow> (users, login_failed e page)
           | None \<Rightarrow>
               (let users1 = map (\<lambda>r. if id_user r = id_user existing
                                       then r\<lparr>is_online := True\<rparr> else r) users
                in case single (filter (\<lambda>r. id_user r = id_user existing) users1) of
                     None \<Rightarrow>
                       (users1,
                        login_failed \<lparr>code = ''PGRST116'', message = ''no single row''\<rparr> page)
                   | Some updatedUser \<Rightarrow>
                       (users1, page\<lparr>currentUser_page := Some updatedUser, loading := False\<rparr>)))
      | None \<Rightarrow>
          (case insert_error errs of
             Some e \<Rightarrow> (users, login_failed e page)
           | None \<Rightarrow>
               (let newUser = \<lparr>id_user = length users, username_user = name, is_online = True\<rparr>
                in (users @ [newUser],
                    page\<lparr>currentUser_page := Some newUser, loading := False\<rparr>)))))"

text \<open>
  \<^verbatim>\<open>handleLogin\<close>, from \<^verbatim>\<open>setLoading(true); setError(null)\<close> to the \<^verbatim>\<open>finally\<close>
  block. An error of the lookup other than \<^verbatim>\<open>PGRST116\<close> is thrown.
\<close>

definition handleLogin ::
  "store_errors \<Rightarrow> string \<Rightarrow> users_row list \<times> home_page \<Rightarrow> users_row list \<times> home_page" where
  "handleLogin errs name = (\<lambda>(users, page0).
     (let page = page0\<lparr>loading := True, error := None\<rparr>
      in case find_user (find_error errs) name users of
           (existingUser, findError) \<Rightarrow>
             (case findError of
                None \<Rightarrow> handleLogin_write errs name existingUser (users, page)
              | Some e \<Rightarrow>
                  if code e \<noteq> ''PGRST116'' then (users, login_failed e page)
                  else handleLogin_write errs name existingUser (users, page))))"

text \<open>
  The page renders the login form while \<^verbatim>\<open>currentUser\<close> is empty and the chat interface
  (where matchmaking starts) otherwise.
\<close>

definition shows_chat_interface :: "home_page \<Rightarrow> bool" where
  "shows_chat_interface page = (currentUser_page page \<noteq> None)"

subsection \<open>Example store and page\<close>

definition no_errors :: store_errors where
  "no_errors = \<lparr>find_error = None, update_error = None, insert_error = None\<rparr>"

definition login_page :: home_page where
  "login_page = \<lparr>currentUser_page = None, loading = False, error = None\<rparr>"

text \<open>Sam is logged in and online.\<close>

definition sam :: users_row where
  "sam = \<lparr>id_user = 0, username_user = ''sam'', is_online = True\<rparr>"

section \<open>Properties of matchmaking\<close>

lemmas example_defs =
  alice_def bob_def carol_def idle_def mounted_def empty_db_def one_client_def
  two_clients_def three_clients_def race_def overtaken_def lonely_search_def
  failed_deletion_def one_after_another_def three_waiting_def

lemmas store_defs =
  run_def click_find_def upsert_waiting_def select_other_def new_room_def
  delete_waiting_def active_participants_def select_existing_room_def single_def
  findMatch_catch_def Let_def

subsection \<open>The store calls\<close>





subsection \<open>One attempt without interference\<close>




subsection \<open>Rooms never pair a participant with itself\<close>











subsection \<open>Cancellation and the retry timer\<close>

lemma findMatch_reply_closure:
  "findMatch_reply me r (d, u, f) = (d', u', f') \<Longrightarrow>
   closure_isSearching f' = closure_isSearching f"
  by (cases "at f"; cases r)
     (auto simp: findMatch_catch_def Let_def split: list.splits option.splits)

lemma findMatch_timer_closure:
  "findMatch_timer (u, f) = (u', f') \<Longrightarrow> closure_isSearching f' = closure_isSearching f"
  by (cases "at f") (auto split: if_splits)

lemma flows_false_update:
  assumes "\<forall>f \<in> set fs. \<not> closure_isSearching f" and "\<not> closure_isSearching f'"
  shows "\<forall>f \<in> set (fs[k := f']). \<not> closure_isSearching f"
  using assms set_update_subset_insert [of fs k f'] by auto

lemma clients_false_update:
  assumes "\<forall>c \<in> set cs. \<forall>f \<in> set (flows c). \<not> closure_isSearching f"
    and "\<forall>f \<in> set (flows c'). \<not> closure_isSearching f"
  shows "\<forall>c \<in> set (cs[i := c']). \<forall>f \<in> set (flows c). \<not> closure_isSearching f"
  using assms set_update_subset_insert [of cs i c'] by auto

lemma sys_step_closures_false:
  assumes "closures_false s"
  shows "closures_false (sys_step s e)"
proof (cases e)
  case (ClickFind i)
  show ?thesis
  proof (cases "i < length (clients s)")
    case False
    then show ?thesis using assms ClickFind by simp
  next
    case True
    then have "clients s ! i \<in> set (clients s)" by simp
    with assms have "\<forall>f \<in> set (flows (click_find (clients s ! i))). \<not> closure_isSearching f"
      by (auto simp: closures_false_def click_find_def)
    with assms
    have "\<forall>c \<in> set ((clients s)[i := click_find (clients s ! i)]).
            \<forall>f \<in> set (flows c). \<not> closure_isSearching f"
      unfolding closures_false_def by (intro clients_false_update)
    then show ?thesis using True ClickFind by (simp add: closures_false_def)
  qed
next
  case (ClickCancel i r)
  show ?thesis
  proof (cases "i < length (clients s) \<and> isSearching (ui (clients s ! i))")
    case False
    then show ?thesis using assms ClickCancel by auto
  next
    case True
    let ?c = "clients s ! i"
    obtain d u where st: "stopSearching (currentUser ?c) r (db s, ui ?c) = (d, u)"
      by (cases "stopSearching (currentUser ?c) r (db s, ui ?c)")
    from True have "?c \<in> set (clients s)" by simp
    with assms have "\<forall>f \<in> set (flows (?c\<lparr>ui := u\<rparr>)). \<not> closure_isSearching f"
      by (auto simp: closures_false_def)
    with assms
    have "\<forall>c \<in> set ((clients s)[i := ?c\<lparr>ui := u\<rparr>]). \<forall>f \<in> set (flows c). \<not> closure_isSearching f"
      unfolding closures_false_def by (intro clients_false_update)
    then show ?thesis using True ClickCancel st by (simp add: closures_false_def Let_def)
  qed
next
  case (Reply i k r)
  show ?thesis
  proof (cases "i < length (clients s) \<and> k < length (flows (clients s ! i))")
    case False
    then show ?thesis using assms Reply by auto
  next
    case True
    let ?c = "clients s ! i"
    from True have "?c \<in> set (clients s)" by simp
    with assms have c: "\<forall>f \<in> set (flows ?c). \<not> closure_isSearching f"
      by (auto simp: closures_false_def)
    with True have p: "\<not> closure_isSearching (flows ?c ! k)" by simp
    obtain d u f where st: "findMatch_reply (currentUser ?c) r (db s, ui ?c, flows ?c ! k) = (d, u, f)"
      by (cases "findMatch_reply (currentUser ?c) r (db s, ui ?c, flows ?c ! k)")
    from findMatch_reply_closure [OF st] p have "\<not> closure_isSearching f" by simp
    with c have "\<forall>f \<in> set (flows (?c\<lparr>ui := u, flows := (flows ?c)[k := f]\<rparr>)). \<not> closure_isSearching f"
      using flows_false_update [of "flows ?c" f k] by simp
    with assms
    have "\<forall>c \<in> set ((clients s)[i := ?c\<lparr>ui := u, flows := (flows ?c)[k := f]\<rparr>]).
            \<forall>f \<in> set (flows c). \<not> closure_isSearching f"
      unfolding closures_false_def by (intro clients_false_update)
    then show ?thesis using True Reply st by (simp add: closures_false_def Let_def)
  qed
next
  case (Timer i k)
  show ?thesis
  proof (cases "i < length (clients s) \<and> k < length (flows (clients s ! i))")
    case False
    then show ?thesis using assms Timer by auto
  next
    case True
    let ?c = "clients s ! i"
    from True have "?c \<in> set (clients s)" by simp
    with assms have c: "\<forall>f \<in> set (flows ?c). \<not> closure_isSearching f"
      by (auto simp: closures_false_def)
    with True have p: "\<not> closure_isSearching (flows ?c ! k)" by simp
    obtain u f where st: "findMatch_timer (ui ?c, flows ?c ! k) = (u, f)"
      by (cases "findMatch_timer (ui ?c, flows ?c ! k)")
    from findMatch_timer_closure [OF st] p have "\<not> closure_isSearching f" by simp
    with c have "\<forall>f \<in> set (flows (?c\<lparr>ui := u, flows := (flows ?c)[k := f]\<rparr>)). \<not> closure_isSearching f"
      using flows_false_update [of "flows ?c" f k] by simp
    with assms
    have "\<forall>c \<in> set ((clients s)[i := ?c\<lparr>ui := u, flows := (flows ?c)[k := f]\<rparr>]).
            \<forall>f \<in> set (flows c). \<not> closure_isSearching f"
      unfolding closures_false_def by (intro clients_false_update)
    then show ?thesis using True Timer st by (simp add: closures_false_def Let_def)
  qed
qed

lemma run_closures_false: "closures_false s \<Longrightarrow> closures_false (run s es)"
  unfolding run_def by (induction es arbitrary: s) (simp_all add: sys_step_closures_false)

lemma no_retry_when_false:
  assumes "closures_false s"
  shows "\<not> retries s e"
proof (cases e)
  case (Timer i k)
  show ?thesis
  proof
    assume r: "retries s e"
    from r [unfolded Timer retries.simps]
    have b: "i < length (clients s)" "k < length (flows (clients s ! i))"
      and t: "is_retry_timer (at (flows (clients s ! i) ! k))"
      and a: "at (flows (clients (sys_step s (Timer i k)) ! i) ! k) = FM_upsert"
      by blast+
    let ?c = "clients s ! i"
    from b have "?c \<in> set (clients s)" "flows ?c ! k \<in> set (flows ?c)" by simp_all
    with assms have "\<not> closure_isSearching (flows ?c ! k)"
      by (auto simp: closures_false_def)
    with t have d: "findMatch_timer (ui ?c, flows ?c ! k) = (ui ?c, (flows ?c ! k)\<lparr>at := FM_done\<rparr>)"
      by (cases "at (flows ?c ! k)") simp_all
    from b have "at (flows (clients (sys_step s (Timer i k)) ! i) ! k) = FM_done"
      by (simp add: Let_def d del: findMatch_timer.simps)
    with a show False by simp
  qed
qed simp_all

lemma delete_own_row:
  "delete_waiting [user_id me] q = filter (\<lambda>r. user_id r \<noteq> user_id me) q"
  by (simp add: delete_waiting_def)

text \<open>
  C8. \<^verbatim>\<open>stopSearching\<close> sets \<^verbatim>\<open>isSearching\<close> to false and asks the store to delete
  the rows whose \<open>user_id\<close> is the caller's. Once the store has performed the deletion,
  the waiting queue is the queue it was without the caller's row: every other row is
  still there, in its place. When the caller had no row, the store is unchanged. The
  function reads no result of the store, so no reply makes it fail: when the store
  reports an error, only \<^verbatim>\<open>isSearching\<close> changes. The same holds of a click on "Cancel
  Search" in a run of several clients. And in every run of clients that started with no
  search in flight, after a cancellation by a client no timer of that client performs a
  retry attempt. (The timer callback tests the \<^verbatim>\<open>isSearching\<close> of its own closure,
  which is false for every search started from the button.)
\<close>

theorem stopSearching_cancels:
  assumes "\<forall>c \<in> set (clients s). flows c = []"
  shows "stopSearching me (Performed n) (d, u) =
           (d\<lparr>waiting_queue := filter (\<lambda>r. user_id r \<noteq> user_id me) (waiting_queue d)\<rparr>,
            u\<lparr>isSearching := False\<rparr>)
       \<and> stopSearching me Store_error (d, u) = (d, u\<lparr>isSearching := False\<rparr>)
       \<and> (user_id me \<notin> user_id ` set (waiting_queue d) \<longrightarrow> fst (stopSearching me r (d, u)) = d)
       \<and> (i < length (clients (run s es)) \<and> isSearching (ui (clients (run s es) ! i))
            \<longrightarrow> db (run s (es @ [ClickCancel i (Performed n)])) =
                  (db (run s es))\<lparr>waiting_queue :=
                     filter (\<lambda>r. user_id r \<noteq> user_id (currentUser (clients (run s es) ! i)))
                       (waiting_queue (db (run s es)))\<rparr>
              \<and> \<not> isSearching (ui (clients (run s (es @ [ClickCancel i (Performed n)])) ! i)))
       \<and> \<not> retries (run s (es @ ClickCancel i r # fs)) (Timer i k)"
proof (intro conjI impI)
  show "stopSearching me (Performed n) (d, u) =
           (d\<lparr>waiting_queue := filter (\<lambda>r. user_id r \<noteq> user_id me) (waiting_queue d)\<rparr>,
            u\<lparr>isSearching := False\<rparr>)"
    by (simp add: delete_own_row)
next
  show "stopSearching me Store_error (d, u) = (d, u\<lparr>isSearching := False\<rparr>)"
    by simp
next
  assume "user_id me \<notin> user_id ` set (waiting_queue d)"
  then have "\<forall>x \<in> set (waiting_queue d). user_id x \<noteq> user_id me"
    by (metis imageI)
  then have "filter (\<lambda>r. user_id r \<noteq> user_id me) (waiting_queue d) = waiting_queue d"
    by (intro filter_True) simp
  then show "fst (stopSearching me r (d, u)) = d"
    by (cases r) (simp_all add: delete_own_row)
next
  assume a: "i < length (clients (run s es)) \<and> isSearching (ui (clients (run s es) ! i))"
  have r: "run s (es @ [ClickCancel i (Performed n)]) =
             sys_step (run s es) (ClickCancel i (Performed n))"
    by (simp add: run_def)
  from a show "db (run s (es @ [ClickCancel i (Performed n)])) =
                  (db (run s es))\<lparr>waiting_queue :=
                     filter (\<lambda>r. user_id r \<noteq> user_id (currentUser (clients (run s es) ! i)))
                       (waiting_queue (db (run s es)))\<rparr>"
    unfolding r by (simp add: delete_own_row Let_def)
  from a show "\<not> isSearching (ui (clients (run s (es @ [ClickCancel i (Performed n)])) ! i))"
    unfolding r by (simp add: Let_def)
next
  from assms have "closures_false s" by (simp add: closures_false_def)
  then show "\<not> retries (run s (es @ ClickCancel i r # fs)) (Timer i k)"
    by (intro no_retry_when_false run_closures_false)
qed

text \<open>
  Alice's row stands between Bob's and Carol's: her cancellation removes it and leaves
  theirs. Alice searches alone and her flow comes to wait on its retry timer; she
  cancels; the timer fires and starts nothing. A cancellation that finds no row changes
  nothing.
\<close>

theorem stopSearching_cancels_witness:
  "stopSearching alice (Performed 0) (three_waiting, idle\<lparr>isSearching := True\<rparr>) =
     (\<lparr>waiting_queue = [bob, carol], chat_rooms = []\<rparr>, idle)
   \<and> fst (stopSearching alice (Performed 0) (empty_db, idle)) = empty_db
   \<and> at (flows (clients (run one_client lonely_search) ! 0) ! 0) = FM_retry_timer 2000
   \<and> waiting_queue (db (run one_client lonely_search)) = [alice]
   \<and> db (run one_client (lonely_search @ [ClickCancel 0 (Performed 0)])) = empty_db
   \<and> \<not> isSearching (ui (clients (run one_client
        (lonely_search @ [ClickCancel 0 (Performed 0)])) ! 0))
   \<and> \<not> retries (run one_client (lonely_search @ ClickCancel 0 (Performed 0) # [])) (Timer 0 0)
   \<and> at (flows (clients (run one_client
        (lonely_search @ [ClickCancel 0 (Performed 0), Timer 0 0])) ! 0) ! 0) = FM_done"
proof -
  have h: "\<forall>c \<in> set (clients one_client). flows c = []"
    by (simp add: example_defs)
  have e: "user_id alice \<notin> user_id ` set (waiting_queue empty_db)"
    by (simp add: example_defs)
  have c: "0 < length (clients (run one_client lonely_search))
           \<and> isSearching (ui (clients (run one_client lonely_search) ! 0))"
    by (simp add: example_defs store_defs)
  from stopSearching_cancels [OF h, where me = alice and n = 0 and d = three_waiting
      and u = "idle\<lparr>isSearching := True\<rparr>"]
  have one: "stopSearching alice (Performed 0) (three_waiting, idle\<lparr>isSearching := True\<rparr>) =
      (three_waiting\<lparr>waiting_queue :=
          filter (\<lambda>r. user_id r \<noteq> user_id alice) (waiting_queue three_waiting)\<rparr>,
       idle\<lparr>isSearching := True, isSearching := False\<rparr>)"
    by blast
  from stopSearching_cancels [OF h, where me = alice and r = "Performed 0" and d = empty_db
      and u = idle and es = lonely_search and i = 0 and n = 0
      and fs = "[]" and k = 0] e c
  have two: "fst (stopSearching alice (Performed 0) (empty_db, idle)) = empty_db"
    and three: "db (run one_client (lonely_search @ [ClickCancel 0 (Performed 0)])) =
        (db (run one_client lonely_search))\<lparr>waiting_queue :=
           filter (\<lambda>r. user_id r \<noteq> user_id (currentUser (clients (run one_client lonely_search) ! 0)))
             (waiting_queue (db (run one_client lonely_search)))\<rparr>"
    and four: "\<not> isSearching (ui (clients (run one_client
        (lonely_search @ [ClickCancel 0 (Performed 0)])) ! 0))"
    and five: "\<not> retries (run one_client (lonely_search @ ClickCancel 0 (Performed 0) # []))
        (Timer 0 0)"
    by blast+
  from one two three four five show ?thesis
    by (simp add: example_defs store_defs)
qed

subsection \<open>The retry timer and store errors\<close>





section \<open>Properties of the negotiation\<close>

lemmas video_example_defs =
  granting_def denying_def initiator_def responder_def from_a_def from_b_def mount_def
  rejecting_c1_def early_candidates_def late_candidate_def call_session_def

lemmas video_defs =
  initializeCall_def setupSignalingChannel_def sendSignalingMessage_def published_def
  createOffer_def handleOffer_def handleAnswer_def handleIceCandidate_def on_broadcast_def
  cleanup_def unmount_def endCall_def onconnectionstatechange_def called_def
  times_called_def Let_def

subsection \<open>Calls on the peer connection\<close>



lemma drain_accepting:
  assumes "\<forall>p c. addIceCandidate_ok w p c"
  shows "drain w pc q = (True, pc\<lparr>calls := calls pc @ map PC_addIceCandidate q\<rparr>, [])"
  using assms by (induction q arbitrary: pc) (simp_all add: called_def)

lemma drain_calls:
  assumes "drain w pc q = (ok, pc', q')"
  shows "remoteDescription pc' = remoteDescription pc \<and>
         (\<exists>cs. calls pc' = calls pc @ map PC_addIceCandidate cs)"
  using assms
proof (induction q arbitrary: pc)
  case Nil
  then show ?case by simp
next
  case (Cons c q)
  show ?case
  proof (cases "addIceCandidate_ok w pc c")
    case True
    with Cons.prems have "drain w (called (PC_addIceCandidate c) pc) q = (ok, pc', q')"
      by simp
    from Cons.IH [OF this] obtain cs where
      "remoteDescription pc' = remoteDescription pc"
      "calls pc' = calls pc @ map PC_addIceCandidate (c # cs)"
      by (auto simp: called_def)
    then show ?thesis by blast
  next
    case False
    with Cons.prems have "pc' = called (PC_addIceCandidate c) pc" by simp
    then have "remoteDescription pc' = remoteDescription pc"
      "calls pc' = calls pc @ map PC_addIceCandidate [c]"
      by (simp_all add: called_def)
    then show ?thesis by blast
  qed
qed

lemma count_list_map_other:
  assumes "\<And>c. f c \<noteq> x"
  shows "count_list (map f cs) x = 0"
  using assms by (induction cs) simp_all

subsection \<open>ICE candidates\<close>

















subsection \<open>The handlers between their awaits\<close>

lemma resume_Ended: "(handler_resume w ^^ n) (vc, Ended) = (vc, Ended)"
  by (induction n) simp_all





lemma createOffer_runs:
  assumes "2 \<le> n"
  shows "(handler_resume w ^^ n) (createOffer_start w vc) = (createOffer w vc, Ended)"
proof -
  from assms obtain m where n: "n = Suc (Suc m)"
    by (cases n; cases "n - 1") simp_all
  have two: "(handler_resume w ^^ n) x = (handler_resume w ^^ m) (handler_resume w (handler_resume w x))" for x
    unfolding n by (simp add: funpow_swap1)
  show ?thesis
    unfolding two
    by (simp add: createOffer_start_def createOffer_def resume_Ended Let_def split: option.splits)
qed

















subsection \<open>Offers and answers\<close>

lemma drain_no_setRemoteDescription:
  assumes "drain w pc q = (ok, pc', q')"
  shows "times_called (PC_setRemoteDescription d) pc' = times_called (PC_setRemoteDescription d) pc"
proof -
  from drain_calls [OF assms] obtain cs where "calls pc' = calls pc @ map PC_addIceCandidate cs"
    by blast
  then show ?thesis
    by (simp add: times_called_def count_list_map_other)
qed

lemma handleAnswer_calls_setRemoteDescription:
  assumes "peerConnectionRef vc = Some pc"
  shows "\<exists>pc'. peerConnectionRef (handleAnswer w d vc) = Some pc' \<and>
           times_called (PC_setRemoteDescription d) pc' =
             Suc (times_called (PC_setRemoteDescription d) pc)"
proof (cases "setRemoteDescription_ok w pc d")
  case False
  with assms show ?thesis
    by (simp add: handleAnswer_def times_called_def called_def)
next
  case True
  let ?pc0 = "(called (PC_setRemoteDescription d) pc)\<lparr>remoteDescription := Some d\<rparr>"
  obtain ok pc1 q where dr: "drain w ?pc0 (iceCandidatesQueue vc) = (ok, pc1, q)"
    by (cases "drain w ?pc0 (iceCandidatesQueue vc)")
  from drain_no_setRemoteDescription [OF dr, of d]
  have "times_called (PC_setRemoteDescription d) pc1 =
          Suc (times_called (PC_setRemoteDescription d) pc)"
    by (simp add: times_called_def called_def)
  with assms True dr show ?thesis
    by (simp add: handleAnswer_def)
qed

lemma handleOffer_calls_setRemoteDescription:
  assumes "peerConnectionRef vc = Some pc"
  shows "\<exists>pc'. peerConnectionRef (handleOffer w d vc) = Some pc' \<and>
           times_called (PC_setRemoteDescription d) pc' =
             Suc (times_called (PC_setRemoteDescription d) pc)"
proof (cases "setRemoteDescription_ok w pc d")
  case False
  with assms show ?thesis
    by (simp add: handleOffer_def times_called_def called_def)
next
  case True
  let ?pc0 = "(called (PC_setRemoteDescription d) pc)\<lparr>remoteDescription := Some d\<rparr>"
  obtain ok pc1 q where dr: "drain w ?pc0 (iceCandidatesQueue vc) = (ok, pc1, q)"
    by (cases "drain w ?pc0 (iceCandidatesQueue vc)")
  from drain_no_setRemoteDescription [OF dr, of d]
  have n: "times_called (PC_setRemoteDescription d) pc1 =
          Suc (times_called (PC_setRemoteDescription d) pc)"
    by (simp add: times_called_def called_def)
  show ?thesis
  proof (cases ok)
    case False
    with assms True dr n show ?thesis
      by (simp add: handleOffer_def)
  next
    case ok: True
    show ?thesis
    proof (cases "createAnswer_result w pc1")
      case None
      with assms True dr n ok show ?thesis
        by (simp add: handleOffer_def times_called_def called_def)
    next
      case (Some answer)
      with assms True dr n ok show ?thesis
        by (simp add: handleOffer_def times_called_def called_def Let_def
            sendSignalingMessage_def split: option.splits)
    qed
  qed
qed

lemma handleOffer_publishes_answer:
  assumes "peerConnectionRef vc = Some pc" and "signalingChannelRef vc = Some ch"
    and "never_throws w answer"
  shows "published (handleOffer w d vc) =
           published vc @ [\<lparr>senderId = userId vc, payload_roomId = roomId vc,
                            signal = Answer answer\<rparr>]"
proof -
  from assms(3) have acc: "\<forall>p c. addIceCandidate_ok w p c"
    and rest: "\<And>p x. setRemoteDescription_ok w p x" "\<And>p. createAnswer_result w p = Some answer"
      "\<And>p x. setLocalDescription_ok w p x"
    by (simp_all add: never_throws_def)
  from assms(1,2) show ?thesis
    by (simp add: handleOffer_def drain_accepting [OF acc] rest Let_def
        sendSignalingMessage_def published_def)
qed

lemma handlers_keep_status:
  "connectionStatus (handleOffer w d vc) = connectionStatus vc"
  "connectionStatus (handleAnswer w d vc) = connectionStatus vc"
  by (simp_all add: handleOffer_def handleAnswer_def sendSignalingMessage_def Let_def
      split: option.splits prod.splits bool.splits)

text \<open>
  C3 (as amended). The component keeps no record of the phase it is in. Every Offer and
  every Answer that passes the sender test is handled like the first: the handler calls
  \<^verbatim>\<open>setRemoteDescription\<close> with it once more, whatever was applied before, and when the
  browser's calls succeed \<^verbatim>\<open>handleOffer\<close> publishes one more Answer. What the peer
  connection throws is caught inside the handler and only logged: the connection status
  is the same before and after.
\<close>

theorem offers_and_answers_always_applied:
  "(peerConnectionRef vc = Some pc
      \<longrightarrow> (\<exists>pc'. peerConnectionRef (handleOffer w d vc) = Some pc' \<and>
             times_called (PC_setRemoteDescription d) pc' =
               Suc (times_called (PC_setRemoteDescription d) pc)))
   \<and> (peerConnectionRef vc = Some pc
      \<longrightarrow> (\<exists>pc'. peerConnectionRef (handleAnswer w d vc) = Some pc' \<and>
             times_called (PC_setRemoteDescription d) pc' =
               Suc (times_called (PC_setRemoteDescription d) pc)))
   \<and> (peerConnectionRef vc = Some pc \<and> signalingChannelRef vc = Some ch \<and> never_throws w answer
      \<longrightarrow> published (handleOffer w d vc) =
            published vc @ [\<lparr>senderId = userId vc, payload_roomId = roomId vc,
                             signal = Answer answer\<rparr>])
   \<and> connectionStatus (handleOffer w d vc) = connectionStatus vc
   \<and> connectionStatus (handleAnswer w d vc) = connectionStatus vc"
  using handleOffer_calls_setRemoteDescription [of vc pc w d]
    handleAnswer_calls_setRemoteDescription [of vc pc w d]
    handleOffer_publishes_answer [of vc pc ch w answer d]
    handlers_keep_status [of w d vc]
  by blast

text \<open>
  The responder handles the initiator's offer: one call of \<^verbatim>\<open>setRemoteDescription\<close>,
  one published answer, the status still "connecting".
\<close>

theorem offers_and_answers_always_applied_witness:
  "map_option (times_called (PC_setRemoteDescription ''offer''))
     (peerConnectionRef (handleOffer granting ''offer'' responder)) = Some 1
   \<and> published (handleOffer granting ''offer'' responder) = [from_b ''r1'' (Answer ''answer'')]
   \<and> connectionStatus (handleOffer granting ''offer'' responder) = Connecting
   \<and> map_option (times_called (PC_setRemoteDescription ''answer''))
     (peerConnectionRef (handleAnswer granting ''answer'' initiator)) = Some 1"
proof -
  have h: "peerConnectionRef responder =
             Some \<lparr>remoteDescription = None, localDescription = None,
                   calls = [PC_addTrack ''audio'', PC_addTrack ''video'']\<rparr>
           \<and> signalingChannelRef responder =
             Some \<lparr>topic = ''webrtc-r1'', sent = [], remove_calls = 0\<rparr>
           \<and> never_throws granting ''answer''"
    by (simp add: video_example_defs video_defs never_throws_def)
  from offers_and_answers_always_applied [where vc = responder and w = granting
      and d = "''offer''" and answer = "''answer''"
      and pc = "\<lparr>remoteDescription = None, localDescription = None,
                   calls = [PC_addTrack ''audio'', PC_addTrack ''video'']\<rparr>"
      and ch = "\<lparr>topic = ''webrtc-r1'', sent = [], remove_calls = 0\<rparr>"] h
  have "published (handleOffer granting ''offer'' responder) =
          published responder @ [\<lparr>senderId = userId responder, payload_roomId = roomId responder,
                                   signal = Answer ''answer''\<rparr>]"
    by blast
  then show ?thesis
    by (simp add: video_example_defs video_defs)
qed

text \<open>
  The claim as stated fails: the responder receives the same offer twice. The second
  delivery is applied as a remote description again and answered again.
\<close>

theorem duplicate_offer_answered_twice:
  "map_option (times_called (PC_setRemoteDescription ''offer''))
     (peerConnectionRef (foldl (vc_step granting) responder
        [Broadcast ''webrtc-r1'' (from_a ''r1'' (Offer ''offer'')),
         Broadcast ''webrtc-r1'' (from_a ''r1'' (Offer ''offer''))])) = Some 2
   \<and> published (foldl (vc_step granting) responder
        [Broadcast ''webrtc-r1'' (from_a ''r1'' (Offer ''offer'')),
         Broadcast ''webrtc-r1'' (from_a ''r1'' (Offer ''offer''))]) =
       [from_b ''r1'' (Answer ''answer''), from_b ''r1'' (Answer ''answer'')]
   \<and> map_option (times_called (PC_setRemoteDescription ''answer''))
     (peerConnectionRef (foldl (vc_step granting) initiator
        [Broadcast ''webrtc-r1'' (from_b ''r1'' (Answer ''answer'')),
         Broadcast ''webrtc-r1'' (from_b ''r1'' (Answer ''answer''))])) = Some 2"
  by (simp add: video_example_defs video_defs)

subsection \<open>Capture failure\<close>

lemma vc_step_holds_nothing:
  assumes "holds_nothing vc"
  shows "holds_nothing (vc_step w vc e)"
  using assms
  by (cases e)
     (simp_all add: holds_nothing_def endCall_def unmount_def cleanup_def)

lemma steps_hold_nothing: "holds_nothing vc \<Longrightarrow> holds_nothing (foldl (vc_step w) vc es)"
  by (induction es arbitrary: vc) (simp_all add: vc_step_holds_nothing)

text \<open>
  C4. When \<^verbatim>\<open>getUserMedia\<close> rejects, \<^verbatim>\<open>initializeCall\<close> does nothing but set the
  status to "disconnected", which the component displays. Whatever happens afterwards,
  the status stays "disconnected", no capture is held (capture is not requested again),
  no peer connection or channel exists, the offer timer is not set, and nothing has been
  published.
\<close>

theorem capture_failure_disconnects:
  assumes "getUserMedia w = None"
  shows "initializeCall w (mount room user role) =
           (mount room user role)\<lparr>connectionStatus := Disconnected\<rparr>
       \<and> connectionStatus (foldl (vc_step w) (initializeCall w (mount room user role)) es) =
           Disconnected
       \<and> localStreamRef (foldl (vc_step w) (initializeCall w (mount room user role)) es) = None
       \<and> peerConnectionRef (foldl (vc_step w) (initializeCall w (mount room user role)) es) = None
       \<and> \<not> offer_timer (foldl (vc_step w) (initializeCall w (mount room user role)) es)
       \<and> published (foldl (vc_step w) (initializeCall w (mount room user role)) es) = []"
proof -
  from assms have i: "initializeCall w (mount room user role) =
           (mount room user role)\<lparr>connectionStatus := Disconnected\<rparr>"
    by (simp add: initializeCall_def)
  then have "holds_nothing (initializeCall w (mount room user role))"
    by (simp add: holds_nothing_def mount_def)
  then have "holds_nothing (foldl (vc_step w) (initializeCall w (mount room user role)) es)"
    by (rule steps_hold_nothing)
  with i show ?thesis
    by (simp add: holds_nothing_def published_def)
qed

text \<open>
  The initiator's browser denies capture; then the timer of an offer fires (it was never
  set), an offer arrives and the user ends the call.
\<close>

theorem capture_failure_disconnects_witness:
  "initializeCall denying (mount ''r1'' ''a'' True) =
     \<lparr>roomId = ''r1'', userId = ''a'', isInitiator = True,
      peerConnectionRef = None, localStreamRef = None, signalingChannelRef = None,
      iceCandidatesQueue = [], connectionStatus = Disconnected,
      remoteStreamReceived = False, offer_timer = False\<rparr>
   \<and> published (foldl (vc_step denying) (initializeCall denying (mount ''r1'' ''a'' True))
       [Offer_timer, Broadcast ''webrtc-r1'' (from_b ''r1'' (Offer ''offer'')),
        Click_end_call]) = []
   \<and> connectionStatus (foldl (vc_step denying) (initializeCall denying (mount ''r1'' ''a'' True))
       [Offer_timer, Broadcast ''webrtc-r1'' (from_b ''r1'' (Offer ''offer'')),
        Click_end_call]) = Disconnected"
proof -
  have h: "getUserMedia denying = None"
    by (simp add: denying_def)
  from capture_failure_disconnects [OF h, where room = "''r1''" and user = "''a''"
      and role = True
      and es = "[Offer_timer, Broadcast ''webrtc-r1'' (from_b ''r1'' (Offer ''offer'')),
                 Click_end_call]"]
  have "initializeCall denying (mount ''r1'' ''a'' True) =
          (mount ''r1'' ''a'' True)\<lparr>connectionStatus := Disconnected\<rparr>"
    and "published (foldl (vc_step denying) (initializeCall denying (mount ''r1'' ''a'' True))
       [Offer_timer, Broadcast ''webrtc-r1'' (from_b ''r1'' (Offer ''offer'')),
        Click_end_call]) = []"
    and "connectionStatus (foldl (vc_step denying) (initializeCall denying (mount ''r1'' ''a'' True))
       [Offer_timer, Broadcast ''webrtc-r1'' (from_b ''r1'' (Offer ''offer'')),
        Click_end_call]) = Disconnected"
    by blast+
  then show ?thesis
    by (simp add: mount_def)
qed

subsection \<open>Teardown\<close>

lemma times_called_close: "times_called PC_close (called PC_close pc) = Suc (times_called PC_close pc)"
  by (simp add: times_called_def called_def)

text \<open>
  C6 (as amended). \<^verbatim>\<open>cleanup\<close> stops every track of the stored stream, closes the stored
  peer connection and removes the stored channel, and leaves the refs pointing at them.
  When the component is disposed of, \<^verbatim>\<open>cleanup\<close> runs once. On an explicit hang-up it
  runs twice, once in \<^verbatim>\<open>endCall\<close> and once more when the parent unmounts the component,
  so every track is stopped twice, the peer connection is closed twice and the channel is
  removed twice. When the peer connection reports a failure, only the status changes to
  "disconnected": nothing is released until the user ends the call or the component is
  disposed of.
\<close>

theorem cleanup_releases:
  "(localStreamRef vc = Some stream
      \<longrightarrow> map_option (map stop_calls) (localStreamRef (unmount vc)) =
            Some (map (\<lambda>t. stop_calls t + 1) stream)
        \<and> map_option (map stop_calls) (localStreamRef (endCall vc)) =
            Some (map (\<lambda>t. stop_calls t + 2) stream))
   \<and> (peerConnectionRef vc = Some pc
      \<longrightarrow> map_option (times_called PC_close) (peerConnectionRef (unmount vc)) =
            Some (times_called PC_close pc + 1)
        \<and> map_option (times_called PC_close) (peerConnectionRef (endCall vc)) =
            Some (times_called PC_close pc + 2))
   \<and> (signalingChannelRef vc = Some ch
      \<longrightarrow> map_option remove_calls (signalingChannelRef (unmount vc)) = Some (remove_calls ch + 1)
        \<and> map_option remove_calls (signalingChannelRef (endCall vc)) = Some (remove_calls ch + 2))
   \<and> (peerConnectionRef vc \<noteq> None
      \<longrightarrow> vc_step w vc (Connection_state ''failed'') = vc\<lparr>connectionStatus := Disconnected\<rparr>)"
  by (simp add: unmount_def endCall_def cleanup_def times_called_close
      onconnectionstatechange_def comp_def)

text \<open>
  A call that was set up is disposed of: each track has been stopped once, the peer
  connection closed once, the channel removed once. A failure report releases nothing.
\<close>

theorem cleanup_releases_witness:
  "map_option (map stop_calls) (localStreamRef (unmount responder)) = Some [1, 1]
   \<and> map_option (times_called PC_close) (peerConnectionRef (unmount responder)) = Some 1
   \<and> map_option remove_calls (signalingChannelRef (unmount responder)) = Some 1
   \<and> vc_step granting responder (Connection_state ''failed'') =
       responder\<lparr>connectionStatus := Disconnected\<rparr>"
proof -
  have h: "localStreamRef responder =
             Some [\<lparr>kind = ''audio'', stop_calls = 0\<rparr>, \<lparr>kind = ''video'', stop_calls = 0\<rparr>]"
    "peerConnectionRef responder =
             Some \<lparr>remoteDescription = None, localDescription = None,
                   calls = [PC_addTrack ''audio'', PC_addTrack ''video'']\<rparr>"
    "signalingChannelRef responder = Some \<lparr>topic = ''webrtc-r1'', sent = [], remove_calls = 0\<rparr>"
    by (simp_all add: video_example_defs video_defs)
  from cleanup_releases [where vc = responder and w = granting
      and stream = "[\<lparr>kind = ''audio'', stop_calls = 0\<rparr>, \<lparr>kind = ''video'', stop_calls = 0\<rparr>]"
      and pc = "\<lparr>remoteDescription = None, localDescription = None,
                  calls = [PC_addTrack ''audio'', PC_addTrack ''video'']\<rparr>"
      and ch = "\<lparr>topic = ''webrtc-r1'', sent = [], remove_calls = 0\<rparr>"] h
  show ?thesis
    by (simp add: times_called_def)
qed

text \<open>
  The claim as stated fails: after an explicit hang-up every resource has been released
  twice, not exactly once; and after a connection failure, before the user acts, none has
  been released.
\<close>

theorem hang_up_releases_twice:
  "map_option (map stop_calls) (localStreamRef (vc_step granting responder Click_end_call)) =
     Some [2, 2]
   \<and> map_option (times_called PC_close)
       (peerConnectionRef (vc_step granting responder Click_end_call)) = Some 2
   \<and> map_option remove_calls
       (signalingChannelRef (vc_step granting responder Click_end_call)) = Some 2
   \<and> map_option (map stop_calls)
       (localStreamRef (vc_step granting responder (Connection_state ''failed''))) = Some [0, 0]
   \<and> map_option (times_called PC_close)
       (peerConnectionRef (vc_step granting responder (Connection_state ''failed''))) = Some 0
   \<and> connectionStatus (vc_step granting responder (Connection_state ''failed'')) = Disconnected"
  by (simp add: video_example_defs video_defs)

subsection \<open>Which broadcasts are handled\<close>




section \<open>Properties of the login\<close>

lemmas login_defs =
  handleLogin_def handleLogin_write_def find_user_def login_failed_def single_def
  shows_chat_interface_def no_errors_def login_page_def sam_def Let_def

lemma filter_by_distinct_id:
  assumes "distinct (map id_user users)" and "x \<in> set users"
  shows "filter (\<lambda>r. id_user r = id_user x) users = [x]"
  using assms
proof (induction users)
  case Nil
  then show ?case by simp
next
  case (Cons u users)
  show ?case
  proof (cases "u = x")
    case True
    with Cons.prems(1) have "id_user x \<notin> id_user ` set users" by simp
    then have "\<forall>r \<in> set users. id_user r \<noteq> id_user x" by (metis imageI)
    then have "filter (\<lambda>r. id_user r = id_user x) users = []"
      by (simp add: filter_empty_conv)
    with True show ?thesis by simp
  next
    case False
    with Cons.prems have x: "x \<in> set users" and d: "distinct (map id_user users)"
      by simp_all
    from Cons.prems(1) x have "id_user u \<noteq> id_user x" by force
    with Cons.IH [OF d x] show ?thesis by simp
  qed
qed

lemma updated_row_found:
  assumes "distinct (map id_user users)" and "x \<in> set users"
  shows "filter (\<lambda>r. id_user r = id_user x)
           (map (\<lambda>r. if id_user r = id_user x then r\<lparr>is_online := True\<rparr> else r) users) =
         [x\<lparr>is_online := True\<rparr>]"
proof -
  let ?f = "\<lambda>r. if id_user r = id_user x then r\<lparr>is_online := True\<rparr> else r"
  have c: "(\<lambda>r. id_user r = id_user x) \<circ> ?f = (\<lambda>r. id_user r = id_user x)"
    by (auto simp: fun_eq_iff)
  have "filter (\<lambda>r. id_user r = id_user x) (map ?f users) =
             map ?f (filter (\<lambda>r. id_user r = id_user x) users)"
    by (simp only: filter_map c)
  with filter_by_distinct_id [OF assms] show ?thesis by simp
qed

text \<open>
  C10 (as amended). \<^verbatim>\<open>handleLogin\<close> first looks the name up. When exactly one row has
  the name (online or not) and the store performs the calls, the row is set online and
  becomes the current user: the login succeeds under the existing record, no error is
  shown, and the chat interface is rendered. The message "This username is already
  taken" is shown when, and only when, a call of the store fails with code 23505, as the
  insertion of a new row does when the name was taken after the lookup found none.
  Whenever \<^verbatim>\<open>handleLogin\<close> ends
  with an error shown, the current user is what it was, so the page that starts
  matchmaking is not reached by that login.
\<close>

theorem login_reuses_existing_user:
  "(filter (\<lambda>r. username_user r = name) users = [existing] \<and> distinct (map id_user users)
      \<and> find_error errs = None \<and> update_error errs = None
      \<longrightarrow> handleLogin errs name (users, page) =
            (map (\<lambda>r. if id_user r = id_user existing then r\<lparr>is_online := True\<rparr> else r) users,
             page\<lparr>loading := False, error := None,
                  currentUser_page := Some (existing\<lparr>is_online := True\<rparr>)\<rparr>)
        \<and> shows_chat_interface (snd (handleLogin errs name (users, page))))
   \<and> (filter (\<lambda>r. username_user r = name) users = [] \<and> find_error errs = None
      \<and> insert_error errs = Some e \<and> code e = ''23505''
      \<longrightarrow> handleLogin errs name (users, page) =
            (users, page\<lparr>loading := False,
               error := Some ''This username is already taken. Please choose another one.''\<rparr>))
   \<and> (error (snd (handleLogin errs name (users, page))) =
        Some ''This username is already taken. Please choose another one.''
      \<longrightarrow> (\<exists>e. (find_error errs = Some e \<or> update_error errs = Some e \<or> insert_error errs = Some e)
             \<and> code e = ''23505''))
   \<and> (error (snd (handleLogin errs name (users, page))) \<noteq> None
      \<longrightarrow> currentUser_page (snd (handleLogin errs name (users, page))) = currentUser_page page)"
proof (intro conjI impI)
  assume a: "filter (\<lambda>r. username_user r = name) users = [existing] \<and> distinct (map id_user users)
      \<and> find_error errs = None \<and> update_error errs = None"
  then have "existing \<in> set (filter (\<lambda>r. username_user r = name) users)" by simp
  then have "existing \<in> set users" by simp
  with a have u: "filter (\<lambda>r. id_user r = id_user existing)
           (map (\<lambda>r. if id_user r = id_user existing then r\<lparr>is_online := True\<rparr> else r) users) =
         [existing\<lparr>is_online := True\<rparr>]"
    by (intro updated_row_found) simp_all
  from a show r: "handleLogin errs name (users, page) =
            (map (\<lambda>r. if id_user r = id_user existing then r\<lparr>is_online := True\<rparr> else r) users,
             page\<lparr>loading := False, error := None,
                  currentUser_page := Some (existing\<lparr>is_online := True\<rparr>)\<rparr>)"
    by (simp add: handleLogin_def handleLogin_write_def find_user_def single_def u Let_def)
  show "shows_chat_interface (snd (handleLogin errs name (users, page)))"
    unfolding r by (simp add: shows_chat_interface_def)
next
  assume "filter (\<lambda>r. username_user r = name) users = [] \<and> find_error errs = None
      \<and> insert_error errs = Some e \<and> code e = ''23505''"
  then show "handleLogin errs name (users, page) =
            (users, page\<lparr>loading := False,
               error := Some ''This username is already taken. Please choose another one.''\<rparr>)"
    by (simp add: handleLogin_def handleLogin_write_def find_user_def single_def
        login_failed_def Let_def)
next
  assume "error (snd (handleLogin errs name (users, page))) =
        Some ''This username is already taken. Please choose another one.''"
  then show "\<exists>e. (find_error errs = Some e \<or> update_error errs = Some e \<or> insert_error errs = Some e)
             \<and> code e = ''23505''"
    by (auto simp: handleLogin_def handleLogin_write_def find_user_def login_failed_def Let_def
        split: option.splits if_splits prod.splits)
next
  assume "error (snd (handleLogin errs name (users, page))) \<noteq> None"
  then show "currentUser_page (snd (handleLogin errs name (users, page))) = currentUser_page page"
    by (auto simp: handleLogin_def handleLogin_write_def find_user_def login_failed_def Let_def
        split: option.splits if_splits prod.splits)
qed

text \<open>
  Sam is offline in the table and logs in again; Kim's name is free at the lookup, but
  the insertion fails with code 23505.
\<close>

theorem login_reuses_existing_user_witness:
  "handleLogin no_errors ''sam'' ([sam\<lparr>is_online := False\<rparr>], login_page) =
     ([sam], login_page\<lparr>currentUser_page := Some sam\<rparr>)
   \<and> handleLogin (no_errors\<lparr>insert_error := Some \<lparr>code = ''23505'', message = ''duplicate key''\<rparr>\<rparr>)
       ''kim'' ([sam], login_page) =
     ([sam], login_page\<lparr>error :=
        Some ''This username is already taken. Please choose another one.''\<rparr>)
   \<and> \<not> shows_chat_interface (snd (handleLogin
        (no_errors\<lparr>insert_error := Some \<lparr>code = ''23505'', message = ''duplicate key''\<rparr>\<rparr>)
        ''kim'' ([sam], login_page)))"
proof -
  have h1: "filter (\<lambda>r. username_user r = ''sam'') [sam\<lparr>is_online := False\<rparr>] =
              [sam\<lparr>is_online := False\<rparr>]
            \<and> distinct (map id_user [sam\<lparr>is_online := False\<rparr>])
            \<and> find_error no_errors = None \<and> update_error no_errors = None"
    by (simp add: sam_def no_errors_def)
  let ?errs = "no_errors\<lparr>insert_error := Some \<lparr>code = ''23505'', message = ''duplicate key''\<rparr>\<rparr>"
  have h2: "filter (\<lambda>r. username_user r = ''kim'') [sam] = [] \<and> find_error ?errs = None
      \<and> insert_error ?errs = Some \<lparr>code = ''23505'', message = ''duplicate key''\<rparr>
      \<and> code \<lparr>code = ''23505'', message = ''duplicate key''\<rparr> = ''23505''"
    by (simp add: sam_def no_errors_def)
  from login_reuses_existing_user [where name = "''sam''"
      and users = "[sam\<lparr>is_online := False\<rparr>]" and existing = "sam\<lparr>is_online := False\<rparr>"
      and errs = no_errors and page = login_page] h1
  have one: "handleLogin no_errors ''sam'' ([sam\<lparr>is_online := False\<rparr>], login_page) =
     (map (\<lambda>r. if id_user r = id_user (sam\<lparr>is_online := False\<rparr>)
                then r\<lparr>is_online := True\<rparr> else r) [sam\<lparr>is_online := False\<rparr>],
      login_page\<lparr>loading := False, error := None,
        currentUser_page := Some (sam\<lparr>is_online := False, is_online := True\<rparr>)\<rparr>)"
    by blast
  from login_reuses_existing_user [where name = "''kim''" and users = "[sam]"
      and errs = ?errs and page = login_page
      and e = "\<lparr>code = ''23505'', message = ''duplicate key''\<rparr>"] h2
  have two: "handleLogin ?errs ''kim'' ([sam], login_page) =
     ([sam], login_page\<lparr>loading := False,
        error := Some ''This username is already taken. Please choose another one.''\<rparr>)"
    by blast
  from one two show ?thesis
    by (simp add: sam_def login_page_def shows_chat_interface_def)
qed

text \<open>
  The claim as stated fails: Sam is online, and a second participant logs in as "sam". The
  login is not rejected: no error is shown, and the second participant is the current
  user under Sam's record.
\<close>

theorem login_with_name_in_use_succeeds:
  "is_online sam
   \<and> handleLogin no_errors ''sam'' ([sam], login_page) =
       ([sam], \<lparr>currentUser_page = Some sam, loading = False, error = None\<rparr>)
   \<and> shows_chat_interface (snd (handleLogin no_errors ''sam'' ([sam], login_page)))"
  by (simp add: login_defs)

end
